theory Spec2Isabelle
  imports Complex_Main "HOL-Library.List_Lexorder" "HOL-Library.Char_ord" "HOL-Library.Sublist"
begin

section \<open>The HTTP client (class APIClient)\<close>

text \<open>
  Every method of \<open>APIClient\<close> builds one call of \<open>request(endpoint, options)\<close>.
  A request is modelled by its method, its endpoint (the string handed to \<open>request\<close>,
  before \<open>API_BASE_URL\<close> is prepended) and its JSON body.
\<close>

datatype http_method = GET | POST | PUT | PATCH | DELETE

text \<open>Decimal rendering of an id inside a template literal.\<close>

fun dec :: "nat \<Rightarrow> string" where
  "dec n = (if n < 10 then [''0123456789'' ! n]
            else dec (n div 10) @ [''0123456789'' ! (n mod 10)])"

declare dec.simps [simp del]

text \<open>A JavaScript number that came out of \<open>parseInt\<close>: an integer, or \<open>NaN\<close>.\<close>

datatype js_number = Num int | NaN

text \<open>The body of \<open>POST /turnos/\<close>, as \<open>confirmarTurno\<close> builds it.\<close>

record turnoData =
  id_paciente :: nat
  id_medico :: nat
  id_especialidad :: nat
  fecha_hora :: "string option"
  duracion_minutos :: int
  motivo :: "string option"

text \<open>The form data of \<open>guardarDisponibilidad\<close> and of \<open>guardarBloqueo\<close>.\<close>

record disponibilidadData =
  dia_semana :: js_number
  hora_desde :: string
  hora_hasta :: string
  duracion_slot :: js_number

record bloqueoData =
  inicio :: string
  fin :: string
  motivo_bloqueo_form :: string

datatype body = NoBody | TurnoBody turnoData | DisponibilidadBody disponibilidadData
  | BloqueoBody bloqueoData

record request =
  req_method :: http_method
  req_endpoint :: string
  req_body :: body

text \<open>An id that may still be \<open>null\<close> when it is spliced into a template literal.\<close>

fun js_id :: "nat option \<Rightarrow> string" where
  "js_id None = ''null''"
| "js_id (Some n) = dec n"

definition createTurno :: "turnoData \<Rightarrow> request" where
  "createTurno d = \<lparr>req_method = POST, req_endpoint = ''/turnos/'', req_body = TurnoBody d\<rparr>"

definition confirmarTurno_api :: "nat \<Rightarrow> request" where
  "confirmarTurno_api turnoId =
     \<lparr>req_method = POST, req_endpoint = ''/turnos/'' @ dec turnoId @ ''/confirmar'',
      req_body = NoBody\<rparr>"

definition cancelarTurno :: "nat \<Rightarrow> request" where
  "cancelarTurno turnoId =
     \<lparr>req_method = POST, req_endpoint = ''/turnos/'' @ dec turnoId @ ''/cancelar'',
      req_body = NoBody\<rparr>"

definition deleteTurno :: "nat \<Rightarrow> request" where
  "deleteTurno turnoId =
     \<lparr>req_method = DELETE, req_endpoint = ''/turnos/'' @ dec turnoId, req_body = NoBody\<rparr>"

definition getPacienteByDNI :: "string \<Rightarrow> request" where
  "getPacienteByDNI dni =
     \<lparr>req_method = GET, req_endpoint = ''/pacientes/dni/'' @ dni, req_body = NoBody\<rparr>"

definition getTurnosPaciente :: "nat \<Rightarrow> bool \<Rightarrow> request" where
  "getTurnosPaciente pacienteId soloFuturos =
     \<lparr>req_method = GET,
      req_endpoint = ''/turnos/paciente/'' @ dec pacienteId @ ''?solo_futuros=''
                     @ (if soloFuturos then ''true'' else ''false''),
      req_body = NoBody\<rparr>"

definition createDisponibilidad :: "nat option \<Rightarrow> disponibilidadData \<Rightarrow> request" where
  "createDisponibilidad medicoId d =
     \<lparr>req_method = POST, req_endpoint = ''/medicos/'' @ js_id medicoId @ ''/disponibilidades'',
      req_body = DisponibilidadBody d\<rparr>"

definition updateDisponibilidad :: "nat option \<Rightarrow> nat option \<Rightarrow> disponibilidadData \<Rightarrow> request" where
  "updateDisponibilidad medicoId disponibilidadId d =
     \<lparr>req_method = PUT,
      req_endpoint = ''/medicos/'' @ js_id medicoId @ ''/disponibilidades/'' @ js_id disponibilidadId,
      req_body = DisponibilidadBody d\<rparr>"

definition createBloqueo :: "nat option \<Rightarrow> bloqueoData \<Rightarrow> request" where
  "createBloqueo medicoId d =
     \<lparr>req_method = POST, req_endpoint = ''/medicos/'' @ js_id medicoId @ ''/bloqueos'',
      req_body = BloqueoBody d\<rparr>"

definition updateBloqueo :: "nat option \<Rightarrow> nat option \<Rightarrow> bloqueoData \<Rightarrow> request" where
  "updateBloqueo medicoId bloqueoId d =
     \<lparr>req_method = PUT,
      req_endpoint = ''/medicos/'' @ js_id medicoId @ ''/bloqueos/'' @ js_id bloqueoId,
      req_body = BloqueoBody d\<rparr>"


section \<open>Appointment lists: the "Mis turnos" views\<close>

text \<open>
  An appointment as the backend serialises it for the views; \<open>t_codigo\<close> is
  \<open>turno.estado.codigo\<close>. The codes the front end knows are
  \<open>PEND\<close>, \<open>CONF\<close>, \<open>ASIS\<close>, \<open>CANC\<close> and \<open>INAS\<close> (\<open>getClassForEstado\<close>).
\<close>

record turno =
  t_id :: nat
  t_codigo :: string
  t_descripcion :: string
  t_fecha_hora :: string
  t_duracion_minutos :: int
  t_motivo :: "string option"
  t_paciente_nombre :: "string option"

text \<open>
  The buttons of a card or table row: \<open>Confirmar i\<close> is the button whose handler is
  \<open>confirmarTurnoById(i)\<close>, \<open>Cancelar i\<close> the one whose handler is
  \<open>cancelarTurnoById(i)\<close>.
\<close>

datatype accion = Confirmar nat | Cancelar nat

definition mostrarTurnosList_estadoClass :: "turno \<Rightarrow> string" where
  "mostrarTurnosList_estadoClass t =
     (if t_codigo t = ''PEND'' then ''pendiente''
      else if t_codigo t = ''CONF'' then ''confirmado''
      else ''cancelado'')"

definition mostrarTurnosList_acciones :: "turno \<Rightarrow> accion list" where
  "mostrarTurnosList_acciones t =
     (if t_codigo t = ''PEND'' then [Confirmar (t_id t)] else [])
     @ (if t_codigo t \<noteq> ''CANC'' \<and> t_codigo t \<noteq> ''INAS'' then [Cancelar (t_id t)] else [])"

definition renderizarTablaMisTurnos_estadoClass :: "turno \<Rightarrow> string" where
  "renderizarTablaMisTurnos_estadoClass t =
     (if t_codigo t = ''PEND'' then ''pendiente''
      else if t_codigo t = ''CONF'' then ''confirmado''
      else if t_codigo t = ''CANC'' then ''cancelado''
      else ''realizado'')"

definition renderizarTablaMisTurnos_acciones :: "turno \<Rightarrow> accion list" where
  "renderizarTablaMisTurnos_acciones t =
     (if t_codigo t = ''PEND'' then [Confirmar (t_id t)] else [])
     @ (if t_codigo t \<noteq> ''CANC'' \<and> t_codigo t \<noteq> ''INAS'' then [Cancelar (t_id t)] else [])"

text \<open>
  What a handler does that can be observed from outside: the requests it sends, the
  toasts it shows and the list it hands to a renderer. \<open>showLoading\<close> and
  \<open>hideLoading\<close> are left out. Messages are written in ASCII, without the accents
  and the inverted exclamation mark of the source.
\<close>

datatype efecto =
    Peticion request
  | Toast string string
  | MostrarTurnosList "turno list"
  | RenderizarTablaMisTurnos "turno list"
  | MensajeLista string
  | NavigateTo string

fun peticiones :: "efecto list \<Rightarrow> request list" where
  "peticiones [] = []"
| "peticiones (Peticion r # es) = r # peticiones es"
| "peticiones (e # es) = peticiones es"

text \<open>
  The surroundings of a handler: the answer to the \<open>confirm(...)\<close> dialog, the trimmed
  value of the field \<open>buscar-turnos-dni\<close>, the percent-encoding of
  \<open>URLSearchParams\<close>, and what the backend answers to each call (\<open>Inl msg\<close> when
  \<open>request\<close> throws \<open>Error(msg)\<close>).
\<close>

record entorno =
  confirm_dialog :: bool
  buscar_turnos_dni :: string
  urlencode :: "string \<Rightarrow> string"
  r_confirmarTurno :: "nat \<Rightarrow> string + unit"
  r_cancelarTurno :: "nat \<Rightarrow> string + unit"
  r_getPacienteByDNI :: "string \<Rightarrow> string + nat"
  r_getTurnosPaciente :: "nat \<Rightarrow> string + turno list"
  r_misTurnos :: "string \<Rightarrow> string + nat \<times> turno list"

definition buscarTurnosPaciente :: "entorno \<Rightarrow> efecto list" where
  "buscarTurnosPaciente env =
     (let dni = buscar_turnos_dni env in
      if dni = [] then [Toast ''Ingrese un DNI'' ''warning'']
      else Peticion (getPacienteByDNI dni) #
        (case r_getPacienteByDNI env dni of
           Inl _ \<Rightarrow> [Toast ''Error al buscar turnos'' ''error'',
                     MensajeLista ''No se encontraron turnos'']
         | Inr paciente_id \<Rightarrow>
             Peticion (getTurnosPaciente paciente_id False) #
             (case r_getTurnosPaciente env paciente_id of
                Inl _ \<Rightarrow> [Toast ''Error al buscar turnos'' ''error'',
                          MensajeLista ''No se encontraron turnos'']
              | Inr turnos \<Rightarrow> [MostrarTurnosList turnos])))"

text \<open>\<open>frontend/js/app.js\<close>: the first version of the two handlers.\<close>

definition confirmarTurnoById :: "entorno \<Rightarrow> nat \<Rightarrow> efecto list" where
  "confirmarTurnoById env turnoId =
     (if \<not> confirm_dialog env then []
      else Peticion (confirmarTurno_api turnoId) #
        (case r_confirmarTurno env turnoId of
           Inl msg \<Rightarrow> [Toast (''Error: '' @ msg) ''error'']
         | Inr _ \<Rightarrow> Toast ''Turno confirmado'' ''success'' # buscarTurnosPaciente env))"

definition cancelarTurnoById :: "entorno \<Rightarrow> nat \<Rightarrow> efecto list" where
  "cancelarTurnoById env turnoId =
     (if \<not> confirm_dialog env then []
      else Peticion (cancelarTurno turnoId) #
        (case r_cancelarTurno env turnoId of
           Inl msg \<Rightarrow> [Toast (''Error: '' @ msg) ''error'']
         | Inr _ \<Rightarrow> Toast ''Turno cancelado'' ''success'' # buscarTurnosPaciente env))"

text \<open>The later version of the file pages the list through \<open>misTurnosState\<close>.\<close>

record misTurnosState =
  currentPage :: int
  pageSize :: int
  totalPages :: int
  currentDNI :: "string option"

definition dec_int :: "int \<Rightarrow> string" where
  "dec_int i = (if i < 0 then ''-'' @ dec (nat (- i)) else dec (nat i))"

definition mis_turnos_endpoint :: "entorno \<Rightarrow> misTurnosState \<Rightarrow> string" where
  "mis_turnos_endpoint env st =
     ''/turnos/mis-turnos/listar?'' @ ''page='' @ dec_int (currentPage st)
       @ ''&page_size='' @ dec_int (pageSize st)
       @ (case currentDNI st of
            None \<Rightarrow> []
          | Some d \<Rightarrow> if d = [] then [] else ''&dni='' @ urlencode env d)"

definition cargarMisTurnos ::
  "entorno \<Rightarrow> misTurnosState \<Rightarrow> int option \<Rightarrow> misTurnosState \<times> efecto list" where
  "cargarMisTurnos env st0 page =
     (let st = (case page of None \<Rightarrow> st0 | Some p \<Rightarrow> st0\<lparr>currentPage := p\<rparr>);
          ep = mis_turnos_endpoint env st;
          req = \<lparr>req_method = GET, req_endpoint = ep, req_body = NoBody\<rparr>
      in case r_misTurnos env ep of
           Inl _ \<Rightarrow> (st, [Peticion req, Toast ''Error al cargar turnos'' ''error'',
                          MensajeLista ''Error al cargar turnos''])
         | Inr (total_pages, turnos) \<Rightarrow>
             (st\<lparr>totalPages := total_pages\<rparr>, [Peticion req, RenderizarTablaMisTurnos turnos]))"

definition recargar_lista :: "entorno \<Rightarrow> misTurnosState \<Rightarrow> misTurnosState \<times> efecto list" where
  "recargar_lista env st =
     (if currentPage st \<noteq> 0 then cargarMisTurnos env st None
      else (st, buscarTurnosPaciente env))"

definition confirmarTurnoById_paginado ::
  "entorno \<Rightarrow> misTurnosState \<Rightarrow> nat \<Rightarrow> misTurnosState \<times> efecto list" where
  "confirmarTurnoById_paginado env st turnoId =
     (if \<not> confirm_dialog env then (st, [])
      else case r_confirmarTurno env turnoId of
             Inl msg \<Rightarrow> (st, [Peticion (confirmarTurno_api turnoId), Toast (''Error: '' @ msg) ''error''])
           | Inr _ \<Rightarrow>
               (let (st', es) = recargar_lista env st
                in (st', Peticion (confirmarTurno_api turnoId)
                         # Toast ''Turno confirmado'' ''success'' # es)))"

definition cancelarTurnoById_paginado ::
  "entorno \<Rightarrow> misTurnosState \<Rightarrow> nat \<Rightarrow> misTurnosState \<times> efecto list" where
  "cancelarTurnoById_paginado env st turnoId =
     (if \<not> confirm_dialog env then (st, [])
      else case r_cancelarTurno env turnoId of
             Inl msg \<Rightarrow> (st, [Peticion (cancelarTurno turnoId), Toast (''Error: '' @ msg) ''error''])
           | Inr _ \<Rightarrow>
               (let (st', es) = recargar_lista env st
                in (st', Peticion (cancelarTurno turnoId)
                         # Toast ''Turno cancelado'' ''success'' # es)))"


section \<open>The booking wizard\<close>

record paciente =
  p_id :: nat
  p_nombre :: string
  p_apellido :: string
  p_dni :: string

record especialidad =
  e_id :: nat
  e_nombre :: string

record medico =
  m_id :: nat
  m_nombre :: string
  m_apellido :: string
  m_matricula :: string

text \<open>The global \<open>appState\<close>; \<open>None\<close> is \<open>null\<close>.\<close>

record appState =
  pacienteSeleccionado :: "paciente option"
  especialidadSeleccionada :: "especialidad option"
  medicoSeleccionado :: "medico option"
  horarioSeleccionado :: "string option"
  currentStep :: int

definition appState_inicial :: appState where
  "appState_inicial =
     \<lparr>pacienteSeleccionado = None, especialidadSeleccionada = None,
      medicoSeleccionado = None, horarioSeleccionado = None, currentStep = 1\<rparr>"

text \<open>
  \<open>validateStep\<close> tests each selection for truthiness: an object is truthy, a string is
  truthy when it is not empty. The warning toast of a failed test is not modelled.
\<close>

definition validateStep :: "appState \<Rightarrow> int \<Rightarrow> bool" where
  "validateStep st step =
     (if step = 1 then pacienteSeleccionado st \<noteq> None
      else if step = 2 then especialidadSeleccionada st \<noteq> None
      else if step = 3 then medicoSeleccionado st \<noteq> None
      else if step = 4 then (case horarioSeleccionado st of None \<Rightarrow> False | Some h \<Rightarrow> h \<noteq> [])
      else True)"

definition updateStepper :: "appState \<Rightarrow> int \<Rightarrow> appState" where
  "updateStepper st step = st\<lparr>currentStep := step\<rparr>"

definition nextStep :: "appState \<Rightarrow> int \<Rightarrow> appState" where
  "nextStep st step =
     (if \<not> validateStep st (currentStep st) then st else updateStepper st step)"

definition prevStep :: "appState \<Rightarrow> int \<Rightarrow> appState" where
  "prevStep st step = updateStepper st step"

definition resetReservaTurno :: "appState \<Rightarrow> appState" where
  "resetReservaTurno st =
     updateStepper
       (st\<lparr>pacienteSeleccionado := None, especialidadSeleccionada := None,
           medicoSeleccionado := None, horarioSeleccionado := None\<rparr>) 1"

text \<open>
  What the user can do to \<open>appState\<close>: a patient is found or registered, a specialty
  card, a physician card or a free calendar cell is clicked, a step button calls
  \<open>nextStep(n)\<close> or \<open>prevStep(n)\<close>, and opening the booking page resets the wizard.
\<close>

datatype evento =
    PacienteEncontrado paciente
  | ClickEspecialidad especialidad
  | ClickMedico medico
  | ClickCelda string
  | NextStep int
  | PrevStep int
  | NavegarTurnos

fun aplicar :: "appState \<Rightarrow> evento \<Rightarrow> appState" where
  "aplicar st (PacienteEncontrado p) = st\<lparr>pacienteSeleccionado := Some p\<rparr>"
| "aplicar st (ClickEspecialidad e) = st\<lparr>especialidadSeleccionada := Some e\<rparr>"
| "aplicar st (ClickMedico m) = st\<lparr>medicoSeleccionado := Some m\<rparr>"
| "aplicar st (ClickCelda h) = st\<lparr>horarioSeleccionado := Some h\<rparr>"
| "aplicar st (NextStep n) = nextStep st n"
| "aplicar st (PrevStep n) = prevStep st n"
| "aplicar st NavegarTurnos = resetReservaTurno st"

fun ejecutar :: "appState \<Rightarrow> evento list \<Rightarrow> appState" where
  "ejecutar st [] = st"
| "ejecutar st (ev # evs) = ejecutar (aplicar st ev) evs"

text \<open>
  The discipline of the step buttons: the button of step \<open>k\<close> calls
  \<open>nextStep(k + 1)\<close>, a back button calls \<open>prevStep\<close> with an earlier step.
\<close>

fun paso_a_paso :: "appState \<Rightarrow> evento list \<Rightarrow> bool" where
  "paso_a_paso st [] = True"
| "paso_a_paso st (ev # evs) =
     ((case ev of
         NextStep n \<Rightarrow> n = currentStep st + 1
       | PrevStep n \<Rightarrow> 1 \<le> n \<and> n < currentStep st
       | _ \<Rightarrow> True)
      \<and> paso_a_paso (aplicar st ev) evs)"

text \<open>All four selections are made.\<close>

definition seleccion_completa :: "appState \<Rightarrow> bool" where
  "seleccion_completa st =
     (pacienteSeleccionado st \<noteq> None \<and> especialidadSeleccionada st \<noteq> None
      \<and> medicoSeleccionado st \<noteq> None \<and> horarioSeleccionado st \<noteq> None)"

text \<open>The selections that the steps before the current one have asked for are made.\<close>

definition pasos_previos_validos :: "appState \<Rightarrow> bool" where
  "pasos_previos_validos st =
     ((if 2 \<le> currentStep st then pacienteSeleccionado st \<noteq> None else True)
      \<and> (if 3 \<le> currentStep st then especialidadSeleccionada st \<noteq> None else True)
      \<and> (if 4 \<le> currentStep st then medicoSeleccionado st \<noteq> None else True)
      \<and> (if 5 \<le> currentStep st then horarioSeleccionado st \<noteq> None else True))"

datatype js_error = TypeError | RangeError | SyntaxError

text \<open>
  Step 5. Reading a property of \<open>null\<close> throws a \<open>TypeError\<close>; a \<open>null\<close> slot does
  not throw, it is handed to \<open>formatDateTime\<close>, which is a parameter here.
\<close>

record resumen =
  resumen_paciente :: string
  resumen_especialidad :: string
  resumen_medico :: string
  resumen_fecha_hora :: string

definition mostrarResumenTurno :: "(string option \<Rightarrow> string) \<Rightarrow> appState \<Rightarrow> js_error + resumen" where
  "mostrarResumenTurno formatDateTime st =
     (case pacienteSeleccionado st of
        None \<Rightarrow> Inl TypeError
      | Some pac \<Rightarrow>
     (case especialidadSeleccionada st of
        None \<Rightarrow> Inl TypeError
      | Some esp \<Rightarrow>
     (case medicoSeleccionado st of
        None \<Rightarrow> Inl TypeError
      | Some med \<Rightarrow>
          Inr \<lparr>resumen_paciente = p_nombre pac @ '' '' @ p_apellido pac @ '' (DNI: '' @ p_dni pac @ '')'',
               resumen_especialidad = e_nombre esp,
               resumen_medico = ''Dr. '' @ m_nombre med @ '' '' @ m_apellido med,
               resumen_fecha_hora = formatDateTime (horarioSeleccionado st)\<rparr>)))"

text \<open>
  \<open>confirmarTurno\<close>: the object \<open>turnoData\<close> built from \<open>appState\<close> and from the
  trimmed value of the field \<open>turno-motivo\<close>. The slot goes into the body as it is; it
  is \<open>fecha_hora\<close> of the body whenever a slot is selected.
\<close>

definition confirmarTurno_turnoData :: "appState \<Rightarrow> string \<Rightarrow> js_error + turnoData" where
  "confirmarTurno_turnoData st turno_motivo =
     (case pacienteSeleccionado st of
        None \<Rightarrow> Inl TypeError
      | Some pac \<Rightarrow>
     (case medicoSeleccionado st of
        None \<Rightarrow> Inl TypeError
      | Some med \<Rightarrow>
     (case especialidadSeleccionada st of
        None \<Rightarrow> Inl TypeError
      | Some esp \<Rightarrow>
          Inr \<lparr>id_paciente = p_id pac, id_medico = m_id med, id_especialidad = e_id esp,
               fecha_hora = horarioSeleccionado st, duracion_minutos = 30,
               motivo = (if turno_motivo = [] then None else Some turno_motivo)\<rparr>)))"

text \<open>The handler: one \<open>POST /turnos/\<close>, then a toast; \<open>resp\<close> is the backend's answer.\<close>

definition confirmarTurno :: "appState \<Rightarrow> string \<Rightarrow> (string + unit) \<Rightarrow> js_error + efecto list" where
  "confirmarTurno st turno_motivo resp =
     (case confirmarTurno_turnoData st turno_motivo of
        Inl e \<Rightarrow> Inl e
      | Inr d \<Rightarrow>
          Inr (Peticion (createTurno d) #
               (case resp of
                  Inl msg \<Rightarrow> [Toast (''Error al reservar turno: '' @ msg) ''error'']
                | Inr _ \<Rightarrow> [Toast ''Turno reservado exitosamente!'' ''success'', NavigateTo ''home''])))"

section \<open>The weekly calendar of step 4\<close>

text \<open>
  One entry of the calendar the backend sends, keyed by date: \<open>bloqueado\<close> is the
  truthiness of \<open>diaInfo.bloqueado\<close>, \<open>horarios\<close> is \<open>None\<close> when the field is absent
  (the code then reads \<open>[]\<close>).
\<close>

record diaInfo =
  bloqueado :: bool
  motivo_bloqueo :: "string option"
  horarios :: "string list option"

record calendarioState =
  semanaActual :: int
  horariosTodos :: "string \<rightharpoonup> diaInfo"
  turnosOcupados :: "turno list"

text \<open>
  What the calendar takes from the browser and not from the store: the \<open>Date\<close> library
  and \<open>Math.random\<close>. A day is counted in days since 1970-01-01.
  \<open>iso_fecha d\<close> is \<open>dia.toISOString().split('T')[0]\<close> for the local midnight of day
  \<open>d\<close>; \<open>fecha_turno s\<close> is the same of \<open>new Date(s)\<close>, \<open>None\<close> when the date is
  invalid and \<open>toISOString\<close> throws a \<open>RangeError\<close>; \<open>hora_turno s\<close> is
  \<open>getHours()\<close> padded to two digits; \<open>random k\<close> is the value of the \<open>k\<close>-th call of
  \<open>Math.random()\<close> during one rendering.
\<close>

record navegador =
  iso_fecha :: "int \<Rightarrow> string"
  fecha_turno :: "string \<Rightarrow> string option"
  hora_turno :: "string \<Rightarrow> string"
  random :: "nat \<Rightarrow> real"

definition buscarHorarioDisponible :: "calendarioState \<Rightarrow> string \<Rightarrow> string \<Rightarrow> string option" where
  "buscarHorarioDisponible cs fecha hora =
     (case horariosTodos cs fecha of
        None \<Rightarrow> None
      | Some diaInfo \<Rightarrow>
          if bloqueado diaInfo then None
          else find (\<lambda>h. take 2 (drop 11 h) = hora)
                    (case horarios diaInfo of None \<Rightarrow> [] | Some hs \<Rightarrow> hs))"

text \<open>
  \<open>Array.find\<close> with a callback that throws on the first appointment whose date is
  invalid, if no earlier appointment matched.
\<close>

fun buscar_turno :: "navegador \<Rightarrow> turno list \<Rightarrow> string \<Rightarrow> string \<Rightarrow> js_error + turno option" where
  "buscar_turno nav [] fecha hora = Inr None"
| "buscar_turno nav (t # ts) fecha hora =
     (case fecha_turno nav (t_fecha_hora t) of
        None \<Rightarrow> Inl RangeError
      | Some fechaTurnoStr \<Rightarrow>
          if fechaTurnoStr = fecha \<and> hora_turno nav (t_fecha_hora t) = hora then Inr (Some t)
          else buscar_turno nav ts fecha hora)"

definition buscarTurnoOcupado ::
  "navegador \<Rightarrow> calendarioState \<Rightarrow> string \<Rightarrow> string \<Rightarrow> js_error + turno option" where
  "buscarTurnoOcupado nav cs fecha hora = buscar_turno nav (turnosOcupados cs) fecha hora"

text \<open>\<open>Date.getDay()\<close> of a day number: 1970-01-01 was a Thursday.\<close>

definition getDay :: "int \<Rightarrow> int" where
  "getDay d = (d + 4) mod 7"

definition diasSemana :: "int \<Rightarrow> int \<Rightarrow> int list" where
  "diasSemana hoy semana =
     (let inicioSemana = hoy + semana * 7;
          diaSemana = getDay inicioSemana;
          diferencia = (if diaSemana = 0 then - 6 else 1 - diaSemana);
          lunes = inicioSemana + diferencia
      in map (\<lambda>i. lunes + int i) [0..<7])"

definition padStart2 :: "string \<Rightarrow> string" where
  "padStart2 s = (if length s < 2 then replicate (2 - length s) CHR ''0'' @ s else s)"

definition horasDelDia :: "string list" where
  "horasDelDia = map (\<lambda>hora. padStart2 (dec hora)) [8..<20]"

definition colores :: "string list" where
  "colores = [[], ''amarillo'', ''verde'', ''rosa'']"

text \<open>\<open>colores[Math.floor(r * colores.length)]\<close>; a missing element is \<open>undefined\<close>.\<close>

definition colorAleatorio :: "real \<Rightarrow> string" where
  "colorAleatorio r =
     (let i = \<lfloor>r * real (length colores)\<rfloor>
      in if 0 \<le> i \<and> nat i < length colores then colores ! nat i else ''undefined'')"

text \<open>
  What a cell shows. Only a \<open>Disponible\<close> cell gets a click handler, and the handler
  stores the cell's slot in \<open>appState.horarioSeleccionado\<close>.
\<close>

datatype contenido =
    Bloqueado string
  | Ocupado string turno
  | Disponible string
  | NoDisponible

record celda =
  c_fecha :: string
  c_hora :: string
  c_contenido :: contenido

fun seleccionable :: "contenido \<Rightarrow> bool" where
  "seleccionable (Disponible h) = True"
| "seleccionable c = False"

text \<open>
  One cell; \<open>k\<close> counts the calls of \<open>Math.random\<close> made so far. The occupied
  appointment is looked up before the branch on \<open>diaBloqueado\<close>, as in the source.
  For an occupied cell the colour is drawn and handed to
  \<open>celda.classList.add('ocupado', colorAleatorio)\<close>, which throws a \<open>SyntaxError\<close> on
  an empty token: when the draw picks \<open>colores[0]\<close>, the empty string, the exception
  leaves the rendering before the cell is appended.
\<close>

definition render_celda ::
  "navegador \<Rightarrow> calendarioState \<Rightarrow> nat \<Rightarrow> string \<Rightarrow> int \<Rightarrow> js_error + celda \<times> nat" where
  "render_celda nav cs k hora dia =
     (let fechaStr = iso_fecha nav dia;
          horarioDisponible = buscarHorarioDisponible cs fechaStr hora;
          diaInfo = horariosTodos cs fechaStr;
          diaBloqueado = (case diaInfo of None \<Rightarrow> False | Some d \<Rightarrow> bloqueado d)
      in case buscarTurnoOcupado nav cs fechaStr hora of
           Inl e \<Rightarrow> Inl e
         | Inr turnoOcupado \<Rightarrow>
             if diaBloqueado then
               Inr (\<lparr>c_fecha = fechaStr, c_hora = hora,
                     c_contenido = Bloqueado
                       (case diaInfo of
                          None \<Rightarrow> ''Medico no disponible''
                        | Some d \<Rightarrow> (case motivo_bloqueo d of
                                       None \<Rightarrow> ''Medico no disponible''
                                     | Some m \<Rightarrow> if m = [] then ''Medico no disponible'' else m))\<rparr>, k)
             else
              (case turnoOcupado of
                 Some t \<Rightarrow>
                   (let color = colorAleatorio (random nav k)
                    in if color = [] then Inl SyntaxError
                       else Inr (\<lparr>c_fecha = fechaStr, c_hora = hora,
                                  c_contenido = Ocupado color t\<rparr>, Suc k))
               | None \<Rightarrow>
                   (case horarioDisponible of
                      Some h \<Rightarrow>
                        if h \<noteq> [] then
                          Inr (\<lparr>c_fecha = fechaStr, c_hora = hora, c_contenido = Disponible h\<rparr>, k)
                        else
                          Inr (\<lparr>c_fecha = fechaStr, c_hora = hora, c_contenido = NoDisponible\<rparr>, k)
                    | None \<Rightarrow>
                        Inr (\<lparr>c_fecha = fechaStr, c_hora = hora, c_contenido = NoDisponible\<rparr>, k))))"

text \<open>
  The two nested \<open>forEach\<close> loops, hour by hour and day by day. An exception ends the
  rendering; the cells appended before it stay in the container.
\<close>

fun render_celdas ::
  "navegador \<Rightarrow> calendarioState \<Rightarrow> nat \<Rightarrow> (string \<times> int) list \<Rightarrow> celda list \<times> js_error option" where
  "render_celdas nav cs k [] = ([], None)"
| "render_celdas nav cs k ((hora, dia) # resto) =
     (case render_celda nav cs k hora dia of
        Inl e \<Rightarrow> ([], Some e)
      | Inr (c, k') \<Rightarrow>
          (case render_celdas nav cs k' resto of (celdas, err) \<Rightarrow> (c # celdas, err)))"

definition renderizarCalendarioSemanal ::
  "navegador \<Rightarrow> calendarioState \<Rightarrow> int \<Rightarrow> celda list \<times> js_error option" where
  "renderizarCalendarioSemanal nav cs hoy =
     render_celdas nav cs 0 (List.product horasDelDia (diasSemana hoy (semanaActual cs)))"



section \<open>Weekly hours and blocks of a physician\<close>

record disponibilidad =
  d_id :: nat
  d_dia_semana :: int
  d_hora_desde :: string
  d_hora_hasta :: string
  d_duracion_slot :: int

record bloqueo =
  b_id :: nat
  b_inicio :: string
  b_fin :: string
  b_motivo :: "string option"

record horariosState =
  h_medicoSeleccionado :: "nat option"
  disponibilidades :: "disponibilidad list"
  bloqueos :: "bloqueo list"
  modoEdicion :: bool
  itemEditando :: "nat option"

definition getDisponibilidades :: "nat option \<Rightarrow> request" where
  "getDisponibilidades medicoId =
     \<lparr>req_method = GET, req_endpoint = ''/medicos/'' @ js_id medicoId @ ''/disponibilidades'',
      req_body = NoBody\<rparr>"

definition getBloqueos :: "nat option \<Rightarrow> request" where
  "getBloqueos medicoId =
     \<lparr>req_method = GET, req_endpoint = ''/medicos/'' @ js_id medicoId @ ''/bloqueos'',
      req_body = NoBody\<rparr>"

text \<open>
  The surroundings of the two save handlers: what the backend answers to a write and to
  the two reads, and \<open>new Date(s).getTime()\<close>, which is \<open>None\<close> for \<open>NaN\<close>
  (an invalid date).
\<close>

record servidor =
  r_guardar :: "request \<Rightarrow> string + unit"
  r_getDisponibilidades :: "nat \<Rightarrow> string + disponibilidad list"
  r_getBloqueos :: "nat \<Rightarrow> string + bloqueo list"
  getTime :: "string \<Rightarrow> int option"

definition cargarDatosMedico :: "servidor \<Rightarrow> horariosState \<Rightarrow> horariosState \<times> efecto list" where
  "cargarDatosMedico srv st =
     (case h_medicoSeleccionado st of
        None \<Rightarrow> (st, [])
      | Some medicoId \<Rightarrow>
          if medicoId = 0 then (st, [])
          else
            (let reqs = [Peticion (getDisponibilidades (Some medicoId)),
                         Peticion (getBloqueos (Some medicoId))]
             in case (r_getDisponibilidades srv medicoId, r_getBloqueos srv medicoId) of
                  (Inr ds, Inr bs) \<Rightarrow> (st\<lparr>disponibilidades := ds, bloqueos := bs\<rparr>, reqs)
                | _ \<Rightarrow> (st, reqs @ [Toast ''Error al cargar los horarios del medico'' ''error''])))"

definition cancelarFormularioDisponibilidad :: "horariosState \<Rightarrow> horariosState" where
  "cancelarFormularioDisponibilidad st = st\<lparr>modoEdicion := False, itemEditando := None\<rparr>"

definition cancelarFormularioBloqueo :: "horariosState \<Rightarrow> horariosState" where
  "cancelarFormularioBloqueo st = st\<lparr>modoEdicion := False, itemEditando := None\<rparr>"

text \<open>
  \<open>guardarDisponibilidad\<close>. The only test is \<open>formData.hora_desde >= formData.hora_hasta\<close>,
  a comparison of two strings.
\<close>

definition guardarDisponibilidad ::
  "servidor \<Rightarrow> horariosState \<Rightarrow> disponibilidadData \<Rightarrow> horariosState \<times> efecto list" where
  "guardarDisponibilidad srv st formData =
     (if hora_desde formData \<ge> hora_hasta formData then
        (st, [Toast ''La hora de fin debe ser posterior a la hora de inicio'' ''error''])
      else
        (let req = (if modoEdicion st
                    then updateDisponibilidad (h_medicoSeleccionado st) (itemEditando st) formData
                    else createDisponibilidad (h_medicoSeleccionado st) formData)
         in case r_guardar srv req of
              Inl _ \<Rightarrow> (st, [Peticion req, Toast ''Error al guardar el horario'' ''error''])
            | Inr _ \<Rightarrow>
                (case cargarDatosMedico srv st of
                   (st', es) \<Rightarrow>
                     (cancelarFormularioDisponibilidad st',
                      Peticion req #
                      Toast (if modoEdicion st then ''Horario actualizado correctamente''
                             else ''Horario agregado correctamente'') ''success'' # es))))"

text \<open>\<open>a >= b\<close> on two \<open>Date\<close> objects: false as soon as one of them is invalid.\<close>

fun date_ge :: "int option \<Rightarrow> int option \<Rightarrow> bool" where
  "date_ge (Some a) (Some b) = (a \<ge> b)"
| "date_ge _ _ = False"

definition guardarBloqueo ::
  "servidor \<Rightarrow> horariosState \<Rightarrow> bloqueoData \<Rightarrow> horariosState \<times> efecto list" where
  "guardarBloqueo srv st formData =
     (if date_ge (getTime srv (inicio formData)) (getTime srv (fin formData)) then
        (st, [Toast ''La fecha de fin debe ser posterior a la fecha de inicio'' ''error''])
      else
        (let req = (if modoEdicion st
                    then updateBloqueo (h_medicoSeleccionado st) (itemEditando st) formData
                    else createBloqueo (h_medicoSeleccionado st) formData)
         in case r_guardar srv req of
              Inl msg \<Rightarrow>
                (st, [Peticion req,
                      Toast (''Error al generar el bloqueo: ''
                             @ (if msg = [] then ''Error desconocido'' else msg)) ''error''])
            | Inr _ \<Rightarrow>
                (case cargarDatosMedico srv st of
                   (st', es) \<Rightarrow>
                     (cancelarFormularioBloqueo st',
                      Peticion req #
                      Toast (if modoEdicion st then ''Bloqueo actualizado correctamente''
                             else ''Bloqueo agregado correctamente'') ''success'' # es))))"

text \<open>The requests of a handler that write to the store.\<close>

definition escrituras :: "efecto list \<Rightarrow> request list" where
  "escrituras es = filter (\<lambda>r. req_method r \<noteq> GET) (peticiones es)"

section \<open>The booking engine behind the API\<close>

text \<open>
  Modelled from the spec: the backend that serves \<open>/turnos/{id}/confirmar\<close> and
  \<open>/turnos/{id}/cancelar\<close> is not among the sources. The status enumeration, the
  appointment record and the two transitions below follow sections 3 and 4.2 of the
  specification.
\<close>

datatype status = PENDING | CONFIRMED | CANCELLED | COMPLETED | NO_SHOW

datatype engine_error = InvalidTransition | NotFound

record appointment =
  a_id :: nat
  a_physician :: nat
  a_patient :: nat
  a_specialty :: nat
  a_instant :: int
  a_duration :: int
  a_status :: status
  a_reason :: "string option"
  a_created :: int

type_synonym appointment_store = "nat \<rightharpoonup> appointment"

text \<open>Modelled from the spec: the terminal states are CANCELLED, COMPLETED and NO_SHOW.\<close>

fun terminal :: "status \<Rightarrow> bool" where
  "terminal CANCELLED = True"
| "terminal COMPLETED = True"
| "terminal NO_SHOW = True"
| "terminal PENDING = False"
| "terminal CONFIRMED = False"

text \<open>
  Modelled from the spec: \<open>confirm(appointmentId)\<close> of the absent backend fails with
  \<open>InvalidTransition\<close> unless the current status is PENDING, and sets CONFIRMED.
\<close>

definition confirm :: "appointment_store \<Rightarrow> nat \<Rightarrow> engine_error + appointment_store" where
  "confirm s i =
     (case s i of
        None \<Rightarrow> Inl NotFound
      | Some a \<Rightarrow>
          if a_status a = PENDING then Inr (s(i \<mapsto> a\<lparr>a_status := CONFIRMED\<rparr>))
          else Inl InvalidTransition)"

text \<open>
  Modelled from the spec: \<open>cancel(appointmentId)\<close> of the absent backend fails with
  \<open>InvalidTransition\<close> if the status is already CANCELLED, COMPLETED or NO_SHOW;
  otherwise it sets CANCELLED and does not delete the row.
\<close>

definition cancel :: "appointment_store \<Rightarrow> nat \<Rightarrow> engine_error + appointment_store" where
  "cancel s i =
     (case s i of
        None \<Rightarrow> Inl NotFound
      | Some a \<Rightarrow>
          if a_status a = CANCELLED \<or> a_status a = COMPLETED \<or> a_status a = NO_SHOW
          then Inl InvalidTransition
          else Inr (s(i \<mapsto> a\<lparr>a_status := CANCELLED\<rparr>)))"

text \<open>
  The code under which the front end sees each status (\<open>getClassForEstado\<close> lists the
  five codes: \<open>ASIS\<close> is an attended, \<open>INAS\<close> a missed appointment).
\<close>

fun codigo_estado :: "status \<Rightarrow> string" where
  "codigo_estado PENDING = ''PEND''"
| "codigo_estado CONFIRMED = ''CONF''"
| "codigo_estado CANCELLED = ''CANC''"
| "codigo_estado COMPLETED = ''ASIS''"
| "codigo_estado NO_SHOW = ''INAS''"

section \<open>Sample values\<close>

definition ej_appointment :: "status \<Rightarrow> appointment" where
  "ej_appointment st =
     \<lparr>a_id = 7, a_physician = 1, a_patient = 2, a_specialty = 3, a_instant = 0,
      a_duration = 30, a_status = st, a_reason = None, a_created = 0\<rparr>"

definition ej_turno :: "string \<Rightarrow> turno" where
  "ej_turno c =
     \<lparr>t_id = 7, t_codigo = c, t_descripcion = [], t_fecha_hora = ''2025-11-24T08:00:00'',
      t_duracion_minutos = 30, t_motivo = None, t_paciente_nombre = None\<rparr>"

definition ej_entorno :: entorno where
  "ej_entorno =
     \<lparr>confirm_dialog = True, buscar_turnos_dni = ''30111222'', urlencode = (\<lambda>s. s),
      r_confirmarTurno = (\<lambda>i. Inr ()), r_cancelarTurno = (\<lambda>i. Inr ()),
      r_getPacienteByDNI = (\<lambda>d. Inr 2), r_getTurnosPaciente = (\<lambda>p. Inr []),
      r_misTurnos = (\<lambda>e. Inr (1, []))\<rparr>"

definition ej_misTurnosState :: misTurnosState where
  "ej_misTurnosState = \<lparr>currentPage = 1, pageSize = 15, totalPages = 0, currentDNI = None\<rparr>"

definition ej_paciente :: paciente where
  "ej_paciente = \<lparr>p_id = 2, p_nombre = ''Ana'', p_apellido = ''Paz'', p_dni = ''30111222''\<rparr>"

definition ej_especialidad :: especialidad where
  "ej_especialidad = \<lparr>e_id = 3, e_nombre = ''Cardiologia''\<rparr>"

definition ej_medico :: medico where
  "ej_medico = \<lparr>m_id = 1, m_nombre = ''Luis'', m_apellido = ''Rey'', m_matricula = ''MP100''\<rparr>"

definition ej_appState :: appState where
  "ej_appState =
     \<lparr>pacienteSeleccionado = Some ej_paciente, especialidadSeleccionada = Some ej_especialidad,
      medicoSeleccionado = Some ej_medico, horarioSeleccionado = Some ''2025-11-24T08:00:00'',
      currentStep = 5\<rparr>"

definition ej_eventos :: "evento list" where
  "ej_eventos =
     [PacienteEncontrado ej_paciente, NextStep 2, ClickEspecialidad ej_especialidad, NextStep 3,
      ClickMedico ej_medico, NextStep 4, ClickCelda ''2025-11-24T08:00:00'', NextStep 5]"

definition ej_dia_bloqueado :: diaInfo where
  "ej_dia_bloqueado =
     \<lparr>bloqueado = True, motivo_bloqueo = Some ''Vacaciones'',
      horarios = Some [''2025-11-25T08:00:00'']\<rparr>"

definition ej_dia_libre :: diaInfo where
  "ej_dia_libre =
     \<lparr>bloqueado = False, motivo_bloqueo = None,
      horarios = Some [''2025-11-24T09:30:00'', ''2025-11-24T10:00:00'']\<rparr>"

definition ej_calendario :: calendarioState where
  "ej_calendario =
     \<lparr>semanaActual = 0,
      horariosTodos = [''2025-11-24'' \<mapsto> ej_dia_libre, ''2025-11-25'' \<mapsto> ej_dia_bloqueado],
      turnosOcupados = [ej_turno ''PEND'']\<rparr>"

text \<open>
  A browser in a time zone west of Greenwich; day 20416 is Monday 2025-11-24. Every call
  of \<open>Math.random\<close> returns \<open>r\<close>.
\<close>

definition ej_navegador :: "real \<Rightarrow> navegador" where
  "ej_navegador r =
     \<lparr>iso_fecha = (\<lambda>d. if d = 20416 then ''2025-11-24''
                        else if d = 20417 then ''2025-11-25'' else ''2025-11-26''),
      fecha_turno = (\<lambda>s. if length s < 10 then None else Some (take 10 s)),
      hora_turno = (\<lambda>s. take 2 (drop 11 s)),
      random = (\<lambda>k. r)\<rparr>"

definition ej_servidor :: servidor where
  "ej_servidor =
     \<lparr>r_guardar = (\<lambda>r. Inr ()), r_getDisponibilidades = (\<lambda>m. Inr []),
      r_getBloqueos = (\<lambda>m. Inr []),
      getTime = (\<lambda>s. if s = ''2025-12-01'' then Some 1764547200000
                      else if s = ''2025-12-10'' then Some 1765324800000 else None)\<rparr>"

text \<open>Physician 1 already has a block from 2025-12-05 to 2025-12-15.\<close>

definition ej_horariosState :: horariosState where
  "ej_horariosState =
     \<lparr>h_medicoSeleccionado = Some 1, disponibilidades = [],
      bloqueos = [\<lparr>b_id = 4, b_inicio = ''2025-12-05T00:00:00'', b_fin = ''2025-12-15T00:00:00'',
                  b_motivo = None\<rparr>],
      modoEdicion = False, itemEditando = None\<rparr>"

definition ej_bloqueoData :: bloqueoData where
  "ej_bloqueoData = \<lparr>inicio = ''2025-12-01'', fin = ''2025-12-10'', motivo_bloqueo_form = ''Congreso''\<rparr>"

definition ej_disponibilidadData :: "js_number \<Rightarrow> js_number \<Rightarrow> disponibilidadData" where
  "ej_disponibilidadData dia duracion =
     \<lparr>dia_semana = dia, hora_desde = ''09:00'', hora_hasta = ''10:00'', duracion_slot = duracion\<rparr>"

section \<open>Requests of the appointment handlers\<close>

lemma peticiones_buscarTurnosPaciente_GET:
  "r \<in> set (peticiones (buscarTurnosPaciente env)) \<Longrightarrow> req_method r = GET"
  by (auto simp: buscarTurnosPaciente_def Let_def getPacienteByDNI_def getTurnosPaciente_def
           split: if_splits sum.splits)

lemma peticiones_cargarMisTurnos_GET:
  "r \<in> set (peticiones (snd (cargarMisTurnos env st page))) \<Longrightarrow> req_method r = GET"
  by (auto simp: cargarMisTurnos_def Let_def split: sum.splits prod.splits option.splits)

lemma peticiones_recargar_lista_GET:
  "r \<in> set (peticiones (snd (recargar_lista env st))) \<Longrightarrow> req_method r = GET"
  using peticiones_buscarTurnosPaciente_GET peticiones_cargarMisTurnos_GET
  by (auto simp: recargar_lista_def split: if_splits)

lemma peticiones_cancelarTurnoById:
  "set (peticiones (cancelarTurnoById env j))
     \<subseteq> (if confirm_dialog env then {cancelarTurno j} else {}) \<union> {r. req_method r = GET}"
  using peticiones_buscarTurnosPaciente_GET
  by (auto simp: cancelarTurnoById_def split: if_splits sum.splits)

lemma peticiones_cancelarTurnoById_paginado:
  "set (peticiones (snd (cancelarTurnoById_paginado env st j)))
     \<subseteq> (if confirm_dialog env then {cancelarTurno j} else {}) \<union> {r. req_method r = GET}"
  using peticiones_recargar_lista_GET[of _ env st]
  by (auto simp: cancelarTurnoById_paginado_def split: if_splits sum.splits prod.splits)

lemma peticiones_confirmarTurnoById:
  "set (peticiones (confirmarTurnoById env j))
     \<subseteq> (if confirm_dialog env then {confirmarTurno_api j} else {}) \<union> {r. req_method r = GET}"
  using peticiones_buscarTurnosPaciente_GET
  by (auto simp: confirmarTurnoById_def split: if_splits sum.splits)

lemma peticiones_confirmarTurnoById_paginado:
  "set (peticiones (snd (confirmarTurnoById_paginado env st j)))
     \<subseteq> (if confirm_dialog env then {confirmarTurno_api j} else {}) \<union> {r. req_method r = GET}"
  using peticiones_recargar_lista_GET[of _ env st]
  by (auto simp: confirmarTurnoById_paginado_def split: if_splits sum.splits prod.splits)

lemma cancelarTurno_enviado:
  "confirm_dialog env \<Longrightarrow> cancelarTurno j \<in> set (peticiones (cancelarTurnoById env j))"
  "confirm_dialog env \<Longrightarrow> cancelarTurno j \<in> set (peticiones (snd (cancelarTurnoById_paginado env st j)))"
  by (auto simp: cancelarTurnoById_def cancelarTurnoById_paginado_def split: sum.splits prod.splits)

lemma confirmarTurno_enviado:
  "confirm_dialog env \<Longrightarrow> confirmarTurno_api j \<in> set (peticiones (confirmarTurnoById env j))"
  "confirm_dialog env \<Longrightarrow> confirmarTurno_api j \<in> set (peticiones (snd (confirmarTurnoById_paginado env st j)))"
  by (auto simp: confirmarTurnoById_def confirmarTurnoById_paginado_def split: sum.splits prod.splits)

lemma metodos:
  "req_method (cancelarTurno j) = POST" "req_method (deleteTurno k) = DELETE"
  "req_method (confirmarTurno_api j) = POST"
  by (simp_all add: cancelarTurno_def deleteTurno_def confirmarTurno_api_def)

lemma codigo_estado_inj: "(codigo_estado a = codigo_estado b) = (a = b)"
  by (cases a; cases b) simp_all

lemma terminal_iff: "terminal st = (st = CANCELLED \<or> st = COMPLETED \<or> st = NO_SHOW)"
  by (cases st) simp_all

section \<open>Confirming and cancelling an appointment\<close>

text \<open>
  Claim C2. For an appointment \<open>a\<close> stored under \<open>i\<close>, \<open>confirm\<close> succeeds exactly
  when the status is PENDING and then stores the appointment with status CONFIRMED; from
  every other status it fails with \<open>InvalidTransition\<close>. Both views show the confirm
  button of an appointment exactly when its code is \<open>PEND\<close>, that is, exactly for a
  PENDING appointment; the handler of the button sends the confirm request exactly when
  the user accepts the dialog.
\<close>

theorem confirm_only_from_pending:
  assumes "s i = Some a"
  shows "((confirm s i = Inr (s(i \<mapsto> a\<lparr>a_status := CONFIRMED\<rparr>))) = (a_status a = PENDING))
    \<and> (a_status a \<noteq> PENDING \<longrightarrow> confirm s i = Inl InvalidTransition)
    \<and> ((Confirmar (t_id t) \<in> set (mostrarTurnosList_acciones t)) = (t_codigo t = ''PEND''))
    \<and> ((Confirmar (t_id t) \<in> set (renderizarTablaMisTurnos_acciones t)) = (t_codigo t = ''PEND''))
    \<and> (t_codigo t = codigo_estado (a_status a) \<longrightarrow>
           (Confirmar (t_id t) \<in> set (mostrarTurnosList_acciones t)) = (a_status a = PENDING)
         \<and> (Confirmar (t_id t) \<in> set (renderizarTablaMisTurnos_acciones t)) = (a_status a = PENDING))
    \<and> ((confirmarTurno_api j \<in> set (peticiones (confirmarTurnoById env j))) = confirm_dialog env)
    \<and> ((confirmarTurno_api j \<in> set (peticiones (snd (confirmarTurnoById_paginado env st j))))
          = confirm_dialog env)"
proof -
  have engine: "(confirm s i = Inr (s(i \<mapsto> a\<lparr>a_status := CONFIRMED\<rparr>))) = (a_status a = PENDING)"
    "a_status a \<noteq> PENDING \<longrightarrow> confirm s i = Inl InvalidTransition"
    using assms by (auto simp: confirm_def)
  have ui: "(Confirmar (t_id t) \<in> set (mostrarTurnosList_acciones t)) = (t_codigo t = ''PEND'')"
    "(Confirmar (t_id t) \<in> set (renderizarTablaMisTurnos_acciones t)) = (t_codigo t = ''PEND'')"
    by (auto simp: mostrarTurnosList_acciones_def renderizarTablaMisTurnos_acciones_def)
  have cod: "(codigo_estado (a_status a) = ''PEND'') = (a_status a = PENDING)"
    using codigo_estado_inj[of "a_status a" PENDING] by simp
  have h1: "(confirmarTurno_api j \<in> set (peticiones (confirmarTurnoById env j))) = confirm_dialog env"
    using peticiones_confirmarTurnoById[of env j] confirmarTurno_enviado(1)[of env j]
    by (auto simp: metodos split: if_splits)
  have h2: "(confirmarTurno_api j \<in> set (peticiones (snd (confirmarTurnoById_paginado env st j))))
          = confirm_dialog env"
    using peticiones_confirmarTurnoById_paginado[of env st j] confirmarTurno_enviado(2)[of env j st]
    by (auto simp: metodos split: if_splits)
  show ?thesis using engine ui cod h1 h2 by simp
qed

theorem confirm_only_from_pending_witness:
  "[7 \<mapsto> ej_appointment PENDING] (7::nat) = Some (ej_appointment PENDING)
   \<and> confirm [7 \<mapsto> ej_appointment PENDING] 7
       = Inr [7 \<mapsto> (ej_appointment PENDING)\<lparr>a_status := CONFIRMED\<rparr>]
   \<and> t_codigo (ej_turno ''PEND'') = codigo_estado (a_status (ej_appointment PENDING))
   \<and> Confirmar 7 \<in> set (renderizarTablaMisTurnos_acciones (ej_turno ''PEND''))
   \<and> Confirmar 7 \<in> set (mostrarTurnosList_acciones (ej_turno ''PEND''))
   \<and> confirmarTurno_api 7 \<in> set (peticiones (confirmarTurnoById ej_entorno 7))"
  using confirm_only_from_pending [of "[7 \<mapsto> ej_appointment PENDING]" 7 "ej_appointment PENDING"
      "ej_turno ''PEND''" 7 ej_entorno ej_misTurnosState]
  by (simp add: ej_appointment_def ej_turno_def ej_entorno_def)

text \<open>
  Claim C1, as amended. Both views show the cancel button of an appointment exactly when
  its code is neither \<open>CANC\<close> nor \<open>INAS\<close>: for a PENDING, a CONFIRMED and also a
  COMPLETED appointment. The handler of the button tests no status; it sends the cancel
  request exactly when the user accepts the dialog. \<open>cancel\<close> fails with
  \<open>InvalidTransition\<close> from CANCELLED, COMPLETED and NO_SHOW and sets CANCELLED from
  every other status.
\<close>

theorem cancel_offered_unless_CANC_or_INAS:
  assumes "s i = Some a"
  shows "((Cancelar (t_id t) \<in> set (mostrarTurnosList_acciones t))
            = (t_codigo t \<noteq> ''CANC'' \<and> t_codigo t \<noteq> ''INAS''))
    \<and> ((Cancelar (t_id t) \<in> set (renderizarTablaMisTurnos_acciones t))
            = (t_codigo t \<noteq> ''CANC'' \<and> t_codigo t \<noteq> ''INAS''))
    \<and> (t_codigo t = codigo_estado (a_status a) \<longrightarrow>
           (Cancelar (t_id t) \<in> set (mostrarTurnosList_acciones t))
             = (a_status a = PENDING \<or> a_status a = CONFIRMED \<or> a_status a = COMPLETED)
         \<and> (Cancelar (t_id t) \<in> set (renderizarTablaMisTurnos_acciones t))
             = (a_status a = PENDING \<or> a_status a = CONFIRMED \<or> a_status a = COMPLETED))
    \<and> ((cancelarTurno j \<in> set (peticiones (cancelarTurnoById env j))) = confirm_dialog env)
    \<and> ((cancelarTurno j \<in> set (peticiones (snd (cancelarTurnoById_paginado env st j))))
          = confirm_dialog env)
    \<and> (terminal (a_status a) \<longrightarrow> cancel s i = Inl InvalidTransition)
    \<and> (\<not> terminal (a_status a) \<longrightarrow> cancel s i = Inr (s(i \<mapsto> a\<lparr>a_status := CANCELLED\<rparr>)))"
proof -
  have ui: "(Cancelar (t_id t) \<in> set (mostrarTurnosList_acciones t))
            = (t_codigo t \<noteq> ''CANC'' \<and> t_codigo t \<noteq> ''INAS'')"
    "(Cancelar (t_id t) \<in> set (renderizarTablaMisTurnos_acciones t))
            = (t_codigo t \<noteq> ''CANC'' \<and> t_codigo t \<noteq> ''INAS'')"
    by (auto simp: mostrarTurnosList_acciones_def renderizarTablaMisTurnos_acciones_def)
  have cod: "(codigo_estado (a_status a) \<noteq> ''CANC'' \<and> codigo_estado (a_status a) \<noteq> ''INAS'')
      = (a_status a = PENDING \<or> a_status a = CONFIRMED \<or> a_status a = COMPLETED)"
    by (cases "a_status a") simp_all
  have h1: "(cancelarTurno j \<in> set (peticiones (cancelarTurnoById env j))) = confirm_dialog env"
    using peticiones_cancelarTurnoById[of env j] cancelarTurno_enviado(1)[of env j]
    by (auto simp: metodos split: if_splits)
  have h2: "(cancelarTurno j \<in> set (peticiones (snd (cancelarTurnoById_paginado env st j))))
          = confirm_dialog env"
    using peticiones_cancelarTurnoById_paginado[of env st j] cancelarTurno_enviado(2)[of env j st]
    by (auto simp: metodos split: if_splits)
  have engine: "terminal (a_status a) \<longrightarrow> cancel s i = Inl InvalidTransition"
    "\<not> terminal (a_status a) \<longrightarrow> cancel s i = Inr (s(i \<mapsto> a\<lparr>a_status := CANCELLED\<rparr>))"
    using assms by (auto simp: cancel_def terminal_iff)
  show ?thesis using ui cod h1 h2 engine by simp
qed

theorem cancel_offered_unless_CANC_or_INAS_witness:
  "[7 \<mapsto> ej_appointment CONFIRMED] (7::nat) = Some (ej_appointment CONFIRMED)
   \<and> t_codigo (ej_turno ''CONF'') = codigo_estado (a_status (ej_appointment CONFIRMED))
   \<and> \<not> terminal (a_status (ej_appointment CONFIRMED))
   \<and> Cancelar 7 \<in> set (renderizarTablaMisTurnos_acciones (ej_turno ''CONF''))
   \<and> cancelarTurno 7 \<in> set (peticiones (cancelarTurnoById ej_entorno 7))
   \<and> cancel [7 \<mapsto> ej_appointment CONFIRMED] 7
       = Inr [7 \<mapsto> (ej_appointment CONFIRMED)\<lparr>a_status := CANCELLED\<rparr>]"
  using cancel_offered_unless_CANC_or_INAS [of "[7 \<mapsto> ej_appointment CONFIRMED]" 7
      "ej_appointment CONFIRMED" "ej_turno ''CONF''" 7 ej_entorno ej_misTurnosState]
  by (simp add: ej_appointment_def ej_turno_def ej_entorno_def)

text \<open>
  The claim as first stated fails for an attended appointment (code \<open>ASIS\<close>): its
  status is terminal, the cancel button is shown all the same, the request is sent, and
  \<open>cancel\<close> rejects it.
\<close>

theorem cancel_offered_for_completed:
  "terminal COMPLETED
   \<and> t_codigo (ej_turno ''ASIS'') = codigo_estado COMPLETED
   \<and> Cancelar 7 \<in> set (mostrarTurnosList_acciones (ej_turno ''ASIS''))
   \<and> Cancelar 7 \<in> set (renderizarTablaMisTurnos_acciones (ej_turno ''ASIS''))
   \<and> cancelarTurno 7 \<in> set (peticiones (cancelarTurnoById ej_entorno 7))
   \<and> cancel [7 \<mapsto> ej_appointment COMPLETED] 7 = Inl InvalidTransition"
  by (simp add: ej_turno_def ej_appointment_def ej_entorno_def mostrarTurnosList_acciones_def
      renderizarTablaMisTurnos_acciones_def cancelarTurnoById_def cancel_def)

text \<open>
  Claim C8. The cancel handler, in both versions of the file, sends the dedicated request
  \<open>POST /turnos/{id}/cancelar\<close> first and never a \<open>DELETE\<close>: \<open>deleteTurno\<close> is a
  different request, and none of the requests of the cancel path is one. A successful
  \<open>cancel\<close> keeps every row of the store, leaves the other appointments as they are and
  changes nothing of the cancelled appointment but its status, which becomes CANCELLED.
\<close>

theorem cancel_never_deletes:
  assumes "s i = Some a" and "cancel s i = Inr s'"
  shows "cancelarTurno j \<noteq> deleteTurno k
    \<and> deleteTurno k \<notin> set (peticiones (cancelarTurnoById env j))
    \<and> deleteTurno k \<notin> set (peticiones (snd (cancelarTurnoById_paginado env st j)))
    \<and> (\<forall>r \<in> set (peticiones (cancelarTurnoById env j)). req_method r \<noteq> DELETE)
    \<and> (\<forall>r \<in> set (peticiones (snd (cancelarTurnoById_paginado env st j))). req_method r \<noteq> DELETE)
    \<and> (confirm_dialog env \<longrightarrow> hd (peticiones (cancelarTurnoById env j)) = cancelarTurno j
          \<and> hd (peticiones (snd (cancelarTurnoById_paginado env st j))) = cancelarTurno j)
    \<and> dom s' = dom s
    \<and> (\<forall>i'. i' \<noteq> i \<longrightarrow> s' i' = s i')
    \<and> (\<exists>a'. s' i = Some a' \<and> a_status a' = CANCELLED
           \<and> a_id a' = a_id a \<and> a_physician a' = a_physician a \<and> a_patient a' = a_patient a
           \<and> a_specialty a' = a_specialty a \<and> a_instant a' = a_instant a
           \<and> a_duration a' = a_duration a \<and> a_reason a' = a_reason a
           \<and> a_created a' = a_created a)"
proof -
  have distinct: "cancelarTurno j \<noteq> deleteTurno k"
    by (simp add: cancelarTurno_def deleteTurno_def)
  have m1: "\<forall>r \<in> set (peticiones (cancelarTurnoById env j)). req_method r \<noteq> DELETE"
    using peticiones_cancelarTurnoById[of env j] by (auto simp: metodos split: if_splits)
  have m2: "\<forall>r \<in> set (peticiones (snd (cancelarTurnoById_paginado env st j))). req_method r \<noteq> DELETE"
    using peticiones_cancelarTurnoById_paginado[of env st j] by (auto simp: metodos split: if_splits)
  have d1: "deleteTurno k \<notin> set (peticiones (cancelarTurnoById env j))"
    using m1 metodos(2) by blast
  have d2: "deleteTurno k \<notin> set (peticiones (snd (cancelarTurnoById_paginado env st j)))"
    using m2 metodos(2) by blast
  have first: "confirm_dialog env \<longrightarrow> hd (peticiones (cancelarTurnoById env j)) = cancelarTurno j
          \<and> hd (peticiones (snd (cancelarTurnoById_paginado env st j))) = cancelarTurno j"
    by (auto simp: cancelarTurnoById_def cancelarTurnoById_paginado_def split: sum.splits prod.splits)
  have s': "s' = s(i \<mapsto> a\<lparr>a_status := CANCELLED\<rparr>)"
    using assms by (auto simp: cancel_def split: if_splits)
  have store: "dom s' = dom s" "\<forall>i'. i' \<noteq> i \<longrightarrow> s' i' = s i'"
    using assms(1) s' by auto
  have fields: "\<exists>a'. s' i = Some a' \<and> a_status a' = CANCELLED
           \<and> a_id a' = a_id a \<and> a_physician a' = a_physician a \<and> a_patient a' = a_patient a
           \<and> a_specialty a' = a_specialty a \<and> a_instant a' = a_instant a
           \<and> a_duration a' = a_duration a \<and> a_reason a' = a_reason a
           \<and> a_created a' = a_created a"
    using s' by simp
  show ?thesis using distinct m1 m2 d1 d2 first store fields by blast
qed

theorem cancel_never_deletes_witness:
  "[7 \<mapsto> ej_appointment PENDING] (7::nat) = Some (ej_appointment PENDING)
   \<and> cancel [7 \<mapsto> ej_appointment PENDING] 7 = Inr [7 \<mapsto> ej_appointment CANCELLED]
   \<and> confirm_dialog ej_entorno
   \<and> hd (peticiones (cancelarTurnoById ej_entorno 7)) = cancelarTurno 7
   \<and> deleteTurno 7 \<notin> set (peticiones (cancelarTurnoById ej_entorno 7))
   \<and> dom [7 \<mapsto> ej_appointment CANCELLED] = dom [(7::nat) \<mapsto> ej_appointment PENDING]"
proof -
  have h1: "[7 \<mapsto> ej_appointment PENDING] (7::nat) = Some (ej_appointment PENDING)" by simp
  have h2: "cancel [7 \<mapsto> ej_appointment PENDING] 7 = Inr [7 \<mapsto> ej_appointment CANCELLED]"
    by (simp add: cancel_def ej_appointment_def)
  have h3: "confirm_dialog ej_entorno" by (simp add: ej_entorno_def)
  show ?thesis
    using h1 h2 h3 cancel_never_deletes [OF h1 h2, of 7 7 ej_entorno ej_misTurnosState]
    by simp
qed

section \<open>The booking wizard: duration and step order\<close>

text \<open>
  Claim C9. Whatever patient, specialty, physician and slot are selected, \<open>confirmarTurno\<close>
  sends exactly one request, \<open>POST /turnos/\<close>, whose body carries the selected ids and
  slot and \<open>duracion_minutos = 30\<close>; every body the function can build has that duration.
  Nothing but \<open>appState\<close> and the reason field enters the body, so no slot duration of
  the physician's weekly hours can.
\<close>

theorem booking_duration_is_30:
  assumes "pacienteSeleccionado st = Some pac" and "especialidadSeleccionada st = Some esp"
    and "medicoSeleccionado st = Some med"
  shows "(\<exists>d es. confirmarTurno_turnoData st turno_motivo = Inr d
            \<and> confirmarTurno st turno_motivo resp = Inr es
            \<and> peticiones es = [createTurno d]
            \<and> req_body (createTurno d) = TurnoBody d
            \<and> duracion_minutos d = 30
            \<and> id_paciente d = p_id pac \<and> id_especialidad d = e_id esp \<and> id_medico d = m_id med
            \<and> fecha_hora d = horarioSeleccionado st)
    \<and> (\<forall>st' m' d'. confirmarTurno_turnoData st' m' = Inr d' \<longrightarrow> duracion_minutos d' = 30)"
proof -
  have gen: "\<forall>st' m' d'. confirmarTurno_turnoData st' m' = Inr d' \<longrightarrow> duracion_minutos d' = 30"
    by (auto simp: confirmarTurno_turnoData_def split: option.splits)
  have here: "\<exists>d es. confirmarTurno_turnoData st turno_motivo = Inr d
            \<and> confirmarTurno st turno_motivo resp = Inr es
            \<and> peticiones es = [createTurno d]
            \<and> req_body (createTurno d) = TurnoBody d
            \<and> duracion_minutos d = 30
            \<and> id_paciente d = p_id pac \<and> id_especialidad d = e_id esp \<and> id_medico d = m_id med
            \<and> fecha_hora d = horarioSeleccionado st"
    using assms
    by (cases resp) (simp_all add: confirmarTurno_def confirmarTurno_turnoData_def createTurno_def)
  show ?thesis using gen here by blast
qed

theorem booking_duration_is_30_witness:
  "pacienteSeleccionado ej_appState = Some ej_paciente
   \<and> especialidadSeleccionada ej_appState = Some ej_especialidad
   \<and> medicoSeleccionado ej_appState = Some ej_medico
   \<and> (\<exists>d es. confirmarTurno ej_appState ''control'' (Inr ()) = Inr es
         \<and> peticiones es = [createTurno d] \<and> duracion_minutos d = 30)"
proof -
  have h: "pacienteSeleccionado ej_appState = Some ej_paciente"
    "especialidadSeleccionada ej_appState = Some ej_especialidad"
    "medicoSeleccionado ej_appState = Some ej_medico"
    by (simp_all add: ej_appState_def)
  show ?thesis
    using h booking_duration_is_30 [OF h, of "''control''" "Inr ()"] by blast
qed

text \<open>
  The selections asked for by the steps passed so far stay made, as long as every
  \<open>nextStep\<close> goes to the next step and every \<open>prevStep\<close> to an earlier one.
\<close>

lemma aplicar_pasos_previos_validos:
  assumes "pasos_previos_validos st"
    and "case ev of NextStep n \<Rightarrow> n = currentStep st + 1
         | PrevStep n \<Rightarrow> 1 \<le> n \<and> n < currentStep st | _ \<Rightarrow> True"
  shows "pasos_previos_validos (aplicar st ev)"
proof (cases ev)
  case (NextStep n)
  then show ?thesis
    using assms
    by (auto simp: pasos_previos_validos_def nextStep_def updateStepper_def validateStep_def
             split: if_splits option.splits)
next
  case (PrevStep n)
  then show ?thesis
    using assms
    by (auto simp: pasos_previos_validos_def prevStep_def updateStepper_def split: if_splits)
qed (use assms in \<open>auto simp: pasos_previos_validos_def resetReservaTurno_def updateStepper_def
        split: if_splits\<close>)

lemma ejecutar_pasos_previos_validos:
  "pasos_previos_validos st \<Longrightarrow> paso_a_paso st evs \<Longrightarrow> pasos_previos_validos (ejecutar st evs)"
proof (induction evs arbitrary: st)
  case Nil
  then show ?case by simp
next
  case (Cons ev evs)
  from Cons.prems have "pasos_previos_validos (aplicar st ev)"
    using aplicar_pasos_previos_validos[of st ev] by simp
  moreover from Cons.prems have "paso_a_paso (aplicar st ev) evs" by simp
  ultimately show ?case using Cons.IH by simp
qed

text \<open>
  Claim C10, as amended. \<open>nextStep\<close> leaves the state as it is when \<open>validateStep\<close>
  of the current step fails, and moves to the step it is given when it succeeds. When
  each step button moves one step forward and each back button moves to an earlier
  step, then whenever step 5 is reached the patient, the specialty, the physician and
  the slot are all selected.
\<close>

theorem wizard_step_by_step:
  assumes "paso_a_paso appState_inicial evs"
    and "currentStep (ejecutar appState_inicial evs) = 5"
  shows "seleccion_completa (ejecutar appState_inicial evs)
    \<and> (\<forall>st n. \<not> validateStep st (currentStep st) \<longrightarrow> nextStep st n = st)
    \<and> (\<forall>st n. validateStep st (currentStep st) \<longrightarrow> currentStep (nextStep st n) = n)"
proof -
  have "pasos_previos_validos appState_inicial"
    by (simp add: pasos_previos_validos_def appState_inicial_def)
  then have "pasos_previos_validos (ejecutar appState_inicial evs)"
    using assms(1) ejecutar_pasos_previos_validos by blast
  then have "seleccion_completa (ejecutar appState_inicial evs)"
    using assms(2) by (simp add: pasos_previos_validos_def seleccion_completa_def)
  moreover have "\<forall>st n. \<not> validateStep st (currentStep st) \<longrightarrow> nextStep st n = st"
    by (simp add: nextStep_def)
  moreover have "\<forall>st n. validateStep st (currentStep st) \<longrightarrow> currentStep (nextStep st n) = n"
    by (simp add: nextStep_def updateStepper_def)
  ultimately show ?thesis by blast
qed

lemma ejecutar_ej_eventos: "ejecutar appState_inicial ej_eventos = ej_appState"
  by (simp add: ej_eventos_def appState_inicial_def ej_appState_def nextStep_def
      validateStep_def updateStepper_def)

theorem wizard_step_by_step_witness:
  "paso_a_paso appState_inicial ej_eventos
   \<and> currentStep (ejecutar appState_inicial ej_eventos) = 5
   \<and> seleccion_completa (ejecutar appState_inicial ej_eventos)"
proof -
  have h1: "paso_a_paso appState_inicial ej_eventos"
    by (simp add: ej_eventos_def appState_inicial_def nextStep_def
      validateStep_def updateStepper_def)
  have h2: "currentStep (ejecutar appState_inicial ej_eventos) = 5"
    by (simp add: ejecutar_ej_eventos ej_appState_def)
  show ?thesis using h1 h2 wizard_step_by_step [OF h1 h2] by simp
qed

text \<open>
  The claim as first stated fails: \<open>validateStep\<close> looks at the current step only, so
  \<open>nextStep(5)\<close> at step 1 with a patient selected reaches step 5 with no specialty, no
  physician and no slot, and \<open>mostrarResumenTurno\<close> throws.
\<close>

theorem step_5_with_missing_selection:
  "currentStep (ejecutar appState_inicial [PacienteEncontrado ej_paciente, NextStep 5]) = 5
   \<and> validateStep (aplicar appState_inicial (PacienteEncontrado ej_paciente)) 1
   \<and> especialidadSeleccionada (ejecutar appState_inicial [PacienteEncontrado ej_paciente, NextStep 5]) = None
   \<and> medicoSeleccionado (ejecutar appState_inicial [PacienteEncontrado ej_paciente, NextStep 5]) = None
   \<and> horarioSeleccionado (ejecutar appState_inicial [PacienteEncontrado ej_paciente, NextStep 5]) = None
   \<and> \<not> seleccion_completa (ejecutar appState_inicial [PacienteEncontrado ej_paciente, NextStep 5])
   \<and> mostrarResumenTurno (\<lambda>h. [])
        (ejecutar appState_inicial [PacienteEncontrado ej_paciente, NextStep 5]) = Inl TypeError"
  by (simp add: appState_inicial_def nextStep_def validateStep_def updateStepper_def
      seleccion_completa_def mostrarResumenTurno_def)

section \<open>The weekly calendar: blocked days and repeated rendering\<close>

lemma render_celda_coordenadas:
  "render_celda nav cs k hora dia = Inr (c, k') \<Longrightarrow>
     c_fecha c = iso_fecha nav dia \<and> c_hora c = hora"
  by (auto simp: render_celda_def Let_def split: sum.splits if_splits option.splits)

lemma render_celda_bloqueado:
  assumes "horariosTodos cs (iso_fecha nav dia) = Some d" and "bloqueado d"
    and "render_celda nav cs k hora dia = Inr (c, k')"
  shows "\<exists>m. c_contenido c = Bloqueado m"
  using assms
  by (auto simp: render_celda_def Let_def split: sum.splits if_splits option.splits)

lemma render_celdas_bloqueado:
  assumes "horariosTodos cs fecha = Some d" and "bloqueado d"
  shows "c \<in> set (fst (render_celdas nav cs k coords)) \<Longrightarrow> c_fecha c = fecha \<Longrightarrow>
           \<exists>m. c_contenido c = Bloqueado m"
proof (induction coords arbitrary: k)
  case Nil
  then show ?case by simp
next
  case (Cons hd coords)
  obtain hora dia where hd: "hd = (hora, dia)" by (cases hd)
  show ?case
  proof (cases "render_celda nav cs k hora dia")
    case (Inl e)
    with Cons.prems hd show ?thesis by simp
  next
    case (Inr r)
    obtain c0 k' where r: "r = (c0, k')" by (cases r)
    from Cons.prems(1) hd Inr r
    have "c = c0 \<or> c \<in> set (fst (render_celdas nav cs k' coords))"
      by (auto split: prod.splits)
    then show ?thesis
    proof
      assume "c = c0"
      with Inr r Cons.prems(2) assms show ?thesis
        using render_celda_coordenadas[of nav cs k hora dia c0 k']
          render_celda_bloqueado[of cs nav dia d k hora c0 k'] by simp
    next
      assume "c \<in> set (fst (render_celdas nav cs k' coords))"
      then show ?thesis using Cons.IH Cons.prems(2) by blast
    qed
  qed
qed

text \<open>
  Claim C4. For a date whose calendar entry is marked blocked, \<open>buscarHorarioDisponible\<close>
  returns no slot for any hour, and every cell of that date in the rendered week is a
  blocked cell: it is not selectable, since only a \<open>Disponible\<close> cell gets the click
  handler.
\<close>

theorem blocked_day_has_no_selectable_cell:
  assumes "horariosTodos cs fecha = Some d" and "bloqueado d"
  shows "(\<forall>hora. buscarHorarioDisponible cs fecha hora = None)
    \<and> (\<forall>c \<in> set (fst (renderizarCalendarioSemanal nav cs hoy)).
          c_fecha c = fecha \<longrightarrow>
            \<not> seleccionable (c_contenido c) \<and> (\<exists>m. c_contenido c = Bloqueado m))"
proof -
  have lookup: "\<forall>hora. buscarHorarioDisponible cs fecha hora = None"
    using assms by (simp add: buscarHorarioDisponible_def)
  have cells: "\<forall>c \<in> set (fst (renderizarCalendarioSemanal nav cs hoy)).
          c_fecha c = fecha \<longrightarrow> (\<exists>m. c_contenido c = Bloqueado m)"
    unfolding renderizarCalendarioSemanal_def
    using render_celdas_bloqueado[OF assms] by blast
  have "\<And>c. (\<exists>m. c_contenido c = Bloqueado m) \<Longrightarrow> \<not> seleccionable (c_contenido c)"
    by auto
  with lookup cells show ?thesis by blast
qed

text \<open>
  The sample week, with every draw equal to 1/4: 84 cells, Monday at eight occupied,
  Tuesday blocked, a free slot on Monday at nine.
\<close>

lemma ej_render:
  "length (fst (renderizarCalendarioSemanal (ej_navegador (1 / 4)) ej_calendario 20416)) = 84"
  "fst (renderizarCalendarioSemanal (ej_navegador (1 / 4)) ej_calendario 20416) ! 0
     = \<lparr>c_fecha = ''2025-11-24'', c_hora = ''08'',
        c_contenido = Ocupado ''amarillo'' (ej_turno ''PEND'')\<rparr>"
  "fst (renderizarCalendarioSemanal (ej_navegador (1 / 4)) ej_calendario 20416) ! 1
     = \<lparr>c_fecha = ''2025-11-25'', c_hora = ''08'', c_contenido = Bloqueado ''Vacaciones''\<rparr>"
  "fst (renderizarCalendarioSemanal (ej_navegador (1 / 4)) ej_calendario 20416) ! 7
     = \<lparr>c_fecha = ''2025-11-24'', c_hora = ''09'',
        c_contenido = Disponible ''2025-11-24T09:30:00''\<rparr>"
  by code_simp+

theorem blocked_day_has_no_selectable_cell_witness:
  "horariosTodos ej_calendario ''2025-11-25'' = Some ej_dia_bloqueado
   \<and> bloqueado ej_dia_bloqueado
   \<and> buscarHorarioDisponible ej_calendario ''2025-11-25'' ''08'' = None
   \<and> c_fecha (fst (renderizarCalendarioSemanal (ej_navegador (1 / 4)) ej_calendario 20416) ! 1)
       = ''2025-11-25''
   \<and> \<not> seleccionable
         (c_contenido
            (fst (renderizarCalendarioSemanal (ej_navegador (1 / 4)) ej_calendario 20416) ! 1))"
proof -
  have h1: "horariosTodos ej_calendario ''2025-11-25'' = Some ej_dia_bloqueado"
    by (simp add: ej_calendario_def)
  have h2: "bloqueado ej_dia_bloqueado"
    by (simp add: ej_dia_bloqueado_def)
  have h3: "fst (renderizarCalendarioSemanal (ej_navegador (1 / 4)) ej_calendario 20416) ! 1
              \<in> set (fst (renderizarCalendarioSemanal (ej_navegador (1 / 4)) ej_calendario 20416))"
    by (rule nth_mem) (simp add: ej_render(1))
  have h4: "c_fecha (fst (renderizarCalendarioSemanal (ej_navegador (1 / 4)) ej_calendario 20416) ! 1)
              = ''2025-11-25''"
    using ej_render(3) by simp
  show ?thesis
    using h1 h2 h3 h4
      blocked_day_has_no_selectable_cell
        [OF h1 h2, where nav = "ej_navegador (1 / 4)" and hoy = 20416]
    by blast
qed







section \<open>Saving weekly hours and blocks\<close>

lemma peticiones_append: "peticiones (xs @ ys) = peticiones xs @ peticiones ys"
  by (induction xs rule: peticiones.induct) simp_all

lemma peticiones_cargarDatosMedico_GET:
  "r \<in> set (peticiones (snd (cargarDatosMedico srv st))) \<Longrightarrow> req_method r = GET"
  by (auto simp: cargarDatosMedico_def Let_def getDisponibilidades_def getBloqueos_def
        peticiones_append split: option.splits if_splits sum.splits)

lemma escrituras_cargarDatosMedico: "escrituras (snd (cargarDatosMedico srv st)) = []"
  using peticiones_cargarDatosMedico_GET[of _ srv st]
  by (auto simp: escrituras_def filter_empty_conv)

lemma escrituras_Cons:
  "escrituras (Peticion r # es) = (if req_method r \<noteq> GET then r # escrituras es else escrituras es)"
  "escrituras (Toast m t # es) = escrituras es"
  "escrituras [] = []"
  by (simp_all add: escrituras_def)

lemma cargarDatosMedico_bloqueos:
  "snd (cargarDatosMedico srv (st\<lparr>bloqueos := bs\<rparr>)) = snd (cargarDatosMedico srv st)"
  by (auto simp: cargarDatosMedico_def Let_def split: option.splits sum.splits)

lemma metodos_guardar:
  "req_method (createDisponibilidad m d) = POST" "req_method (updateDisponibilidad m i d) = PUT"
  "req_method (createBloqueo m b) = POST" "req_method (updateBloqueo m i b) = PUT"
  by (simp_all add: createDisponibilidad_def updateDisponibilidad_def createBloqueo_def
      updateBloqueo_def)

text \<open>
  Claim C6, as amended. Saving weekly hours is refused, with an error toast and no request
  sent, exactly when \<open>hora_desde >= hora_hasta\<close> as strings. Otherwise the create or
  update request is sent whatever the slot duration and the day of the week are: the
  handler does not look at them.
\<close>

theorem availability_refused_iff_start_not_before_end:
  "((peticiones (snd (guardarDisponibilidad srv st formData)) = [])
        = (hora_desde formData \<ge> hora_hasta formData))
   \<and> (hora_desde formData \<ge> hora_hasta formData \<longrightarrow>
        guardarDisponibilidad srv st formData
          = (st, [Toast ''La hora de fin debe ser posterior a la hora de inicio'' ''error'']))
   \<and> (hora_desde formData < hora_hasta formData \<longrightarrow>
        escrituras (snd (guardarDisponibilidad srv st formData))
          = [if modoEdicion st
             then updateDisponibilidad (h_medicoSeleccionado st) (itemEditando st) formData
             else createDisponibilidad (h_medicoSeleccionado st) formData])"
proof -
  have refuse: "hora_desde formData \<ge> hora_hasta formData \<longrightarrow>
        guardarDisponibilidad srv st formData
          = (st, [Toast ''La hora de fin debe ser posterior a la hora de inicio'' ''error''])"
    by (simp add: guardarDisponibilidad_def)
  have send: "hora_desde formData < hora_hasta formData \<longrightarrow>
        escrituras (snd (guardarDisponibilidad srv st formData))
          = [if modoEdicion st
             then updateDisponibilidad (h_medicoSeleccionado st) (itemEditando st) formData
             else createDisponibilidad (h_medicoSeleccionado st) formData]"
    using escrituras_cargarDatosMedico[of srv st]
    by (auto simp: guardarDisponibilidad_def Let_def escrituras_Cons metodos_guardar
          split: sum.splits prod.splits)
  have nonempty: "\<not> hora_desde formData \<ge> hora_hasta formData \<longrightarrow>
        peticiones (snd (guardarDisponibilidad srv st formData)) \<noteq> []"
    by (auto simp: guardarDisponibilidad_def Let_def split: sum.splits prod.splits)
  show ?thesis using refuse send nonempty by auto
qed

theorem availability_refused_iff_start_not_before_end_witness:
  "\<not> (hora_desde (ej_disponibilidadData (Num 1) (Num 30)) \<ge> hora_hasta (ej_disponibilidadData (Num 1) (Num 30)))
   \<and> peticiones (snd (guardarDisponibilidad ej_servidor ej_horariosState
                        (ej_disponibilidadData (Num 1) (Num 30)))) \<noteq> []
   \<and> escrituras (snd (guardarDisponibilidad ej_servidor ej_horariosState
                        (ej_disponibilidadData (Num 1) (Num 30))))
       = [createDisponibilidad (Some 1) (ej_disponibilidadData (Num 1) (Num 30))]"
proof -
  have h: "hora_desde (ej_disponibilidadData (Num 1) (Num 30))
             < hora_hasta (ej_disponibilidadData (Num 1) (Num 30))"
    by (simp add: ej_disponibilidadData_def less_char_def)
  show ?thesis
    using h availability_refused_iff_start_not_before_end
      [where srv = ej_servidor and st = ej_horariosState
         and formData = "ej_disponibilidadData (Num 1) (Num 30)"]
    by (simp add: ej_horariosState_def)
qed

text \<open>
  The claim as first stated fails: hours from 09:00 to 10:00 are sent to the store with
  slot duration 0 and day 9, and with duration -5 and a day that is not a number.
\<close>

theorem availability_saved_with_bad_duration_or_day:
  "escrituras (snd (guardarDisponibilidad ej_servidor ej_horariosState
                      (ej_disponibilidadData (Num 9) (Num 0))))
     = [createDisponibilidad (Some 1) (ej_disponibilidadData (Num 9) (Num 0))]
   \<and> escrituras (snd (guardarDisponibilidad ej_servidor ej_horariosState
                      (ej_disponibilidadData NaN (Num (- 5)))))
     = [createDisponibilidad (Some 1) (ej_disponibilidadData NaN (Num (- 5)))]"
  by (simp add: guardarDisponibilidad_def ej_disponibilidadData_def ej_horariosState_def
      ej_servidor_def less_char_def less_eq_char_def cargarDatosMedico_def escrituras_def
      createDisponibilidad_def getDisponibilidades_def getBloqueos_def
      cancelarFormularioDisponibilidad_def)

text \<open>
  Claim C7. When both dates of the block form are valid, a block whose start is not
  before its end is refused with an error toast and no request; otherwise exactly one
  write is sent, the create or the update of the block. The physician's known blocks do
  not enter: with any other list of blocks the handler does the same, so a block that
  overlaps an existing one is sent like any other.
\<close>

theorem block_save_checks_only_start_before_end:
  assumes "getTime srv (inicio formData) = Some a" and "getTime srv (fin formData) = Some b"
  shows "(a \<ge> b \<longrightarrow>
            guardarBloqueo srv st formData
              = (st, [Toast ''La fecha de fin debe ser posterior a la fecha de inicio'' ''error''])
            \<and> peticiones (snd (guardarBloqueo srv st formData)) = [])
    \<and> (a < b \<longrightarrow>
          escrituras (snd (guardarBloqueo srv st formData))
            = [if modoEdicion st
               then updateBloqueo (h_medicoSeleccionado st) (itemEditando st) formData
               else createBloqueo (h_medicoSeleccionado st) formData])
    \<and> snd (guardarBloqueo srv (st\<lparr>bloqueos := bs\<rparr>) formData)
        = snd (guardarBloqueo srv st formData)"
proof -
  have refuse: "a \<ge> b \<longrightarrow>
            guardarBloqueo srv st formData
              = (st, [Toast ''La fecha de fin debe ser posterior a la fecha de inicio'' ''error''])
            \<and> peticiones (snd (guardarBloqueo srv st formData)) = []"
    using assms by (simp add: guardarBloqueo_def)
  have send: "a < b \<longrightarrow>
          escrituras (snd (guardarBloqueo srv st formData))
            = [if modoEdicion st
               then updateBloqueo (h_medicoSeleccionado st) (itemEditando st) formData
               else createBloqueo (h_medicoSeleccionado st) formData]"
    using assms escrituras_cargarDatosMedico[of srv st]
    by (auto simp: guardarBloqueo_def Let_def escrituras_Cons metodos_guardar
          split: sum.splits prod.splits)
  have indep: "snd (guardarBloqueo srv (st\<lparr>bloqueos := bs\<rparr>) formData)
        = snd (guardarBloqueo srv st formData)"
    using cargarDatosMedico_bloqueos[where srv=srv and st=st and bs=bs]
    by (auto simp: guardarBloqueo_def Let_def split: sum.splits prod.splits)
  show ?thesis using refuse send indep by blast
qed

theorem block_save_checks_only_start_before_end_witness:
  "getTime ej_servidor (inicio ej_bloqueoData) = Some 1764547200000
   \<and> getTime ej_servidor (fin ej_bloqueoData) = Some 1765324800000
   \<and> (1764547200000::int) < 1765324800000
   \<and> bloqueos ej_horariosState \<noteq> []
   \<and> escrituras (snd (guardarBloqueo ej_servidor ej_horariosState ej_bloqueoData))
       = [createBloqueo (Some 1) ej_bloqueoData]"
proof -
  have h1: "getTime ej_servidor (inicio ej_bloqueoData) = Some 1764547200000"
    by (simp add: ej_servidor_def ej_bloqueoData_def)
  have h2: "getTime ej_servidor (fin ej_bloqueoData) = Some 1765324800000"
    by (simp add: ej_servidor_def ej_bloqueoData_def)
  show ?thesis
    using h1 h2 block_save_checks_only_start_before_end [OF h1 h2, where st = ej_horariosState and bs = "[]"]
    by (simp add: ej_horariosState_def)
qed

end
